theory Spec2Isabelle
  imports Complex_Main "HOL-Library.Product_Lexorder"
begin

section \<open>The vector store of \<open>sjpu_system.py\<close>\<close>

text \<open>
  The development embeds the store part of class \<open>SJPUVectorSystem\<close>:
  \<open>__init__\<close> with \<open>_initialize_database\<close>, \<open>validate_vector\<close>, \<open>add_to_db\<close>,
  \<open>query_db\<close> and \<open>get_system_stats\<close>. Mutation of \<open>self\<close> is explicit state passing,
  an exception is the outcome \<open>Raise\<close>, and \<open>warnings.warn\<close> appends to a list of
  warnings returned beside the result.
\<close>

subsection \<open>Numbers and arrays\<close>

text \<open>
  An array entry is a floating-point value: a finite one, given by the real number it
  denotes, or one of the three non-finite ones. The caller's sequence holds doubles;
  the arrays the store keeps and searches hold float32 values.
\<close>

datatype float = Fin real | NaN | PosInf | NegInf

fun isfinite :: "float \<Rightarrow> bool" where
  "isfinite (Fin x) = True"
| "isfinite NaN = False"
| "isfinite PosInf = False"
| "isfinite NegInf = False"

text \<open>The largest finite double, \<open>np.finfo(np.float64).max\<close>.\<close>

definition DBL_MAX :: real where
  "DBL_MAX = (2 - 1 / 2 ^ 52) * 2 ^ 1023"

text \<open>
  \<open>np.nan_to_num\<close> with its default arguments: NaN becomes 0.0, positive infinity the
  largest finite value of the type and negative infinity the most negative one.
\<close>

fun nan_to_num :: "float \<Rightarrow> float" where
  "nan_to_num (Fin x) = Fin x"
| "nan_to_num NaN = Fin 0"
| "nan_to_num PosInf = Fin DBL_MAX"
| "nan_to_num NegInf = Fin (- DBL_MAX)"

subsection \<open>float32\<close>

text \<open>
  The largest finite float32, and the least magnitude that rounds to infinity: the
  midpoint between \<open>FLT_MAX\<close> and \<open>2 ^ 128\<close>.
\<close>

definition FLT_MAX :: real where
  "FLT_MAX = (2 - 1 / 2 ^ 23) * 2 ^ 127"

definition FLT_OVERFLOW :: real where
  "FLT_OVERFLOW = (2 - 1 / 2 ^ 24) * 2 ^ 127"

text \<open>
  Rounding a real number to float32, to nearest with ties to the even significand. The
  spacing of float32 values around \<open>x\<close> is \<open>2 ^ (e - 23)\<close> for the binary exponent \<open>e\<close> of
  \<open>x\<close>, which is at least \<open>-126\<close> (below \<open>2 ^ -126\<close> the values are subnormal).
\<close>

definition f32_exponent :: "real \<Rightarrow> int" where
  "f32_exponent x = max (- 126) \<lfloor>log 2 \<bar>x\<bar>\<rfloor>"

definition round_half_even :: "real \<Rightarrow> int" where
  "round_half_even y =
     (let f = \<lfloor>y\<rfloor>; r = y - of_int f
      in if r < 1 / 2 then f
         else if 1 / 2 < r then f + 1
         else if even f then f else f + 1)"

definition round32 :: "real \<Rightarrow> real" where
  "round32 x =
     (if x = 0 then 0
      else of_int (round_half_even (x / 2 powi (f32_exponent x - 23)))
             * 2 powi (f32_exponent x - 23))"

text \<open>
  The float32 a finite result is delivered as: rounded, or infinite on overflow. numpy
  reports an overflow or an invalid operation by a RuntimeWarning of its own and goes
  on; those are not among the warnings recorded here, which are the \<open>warnings.warn\<close>
  calls of the source.
\<close>

definition narrow32 :: "real \<Rightarrow> float" where
  "narrow32 x =
     (if FLT_OVERFLOW \<le> x then PosInf
      else if x \<le> - FLT_OVERFLOW then NegInf
      else Fin (round32 x))"

text \<open>\<open>vec.astype(np.float32)\<close> on an array of doubles.\<close>

fun to_f32 :: "float \<Rightarrow> float" where
  "to_f32 (Fin x) = narrow32 x"
| "to_f32 NaN = NaN"
| "to_f32 PosInf = PosInf"
| "to_f32 NegInf = NegInf"

definition astype_f32 :: "float list \<Rightarrow> float list" where
  "astype_f32 vec = map to_f32 vec"

text \<open>
  float32 arithmetic as numpy performs it on float32 arrays: the exact result rounded
  to float32, with the IEEE results for infinite and NaN operands. \<open>fsquare32\<close> is the
  product \<open>x * x\<close> that \<open>np.linalg.norm\<close> forms for every entry.
\<close>

fun fsub32 :: "float \<Rightarrow> float \<Rightarrow> float" where
  "fsub32 (Fin x) (Fin y) = narrow32 (x - y)"
| "fsub32 NaN b = NaN"
| "fsub32 a NaN = NaN"
| "fsub32 PosInf PosInf = NaN"
| "fsub32 NegInf NegInf = NaN"
| "fsub32 PosInf b = PosInf"
| "fsub32 NegInf b = NegInf"
| "fsub32 (Fin x) PosInf = NegInf"
| "fsub32 (Fin x) NegInf = PosInf"

fun fadd32 :: "float \<Rightarrow> float \<Rightarrow> float" where
  "fadd32 (Fin x) (Fin y) = narrow32 (x + y)"
| "fadd32 NaN b = NaN"
| "fadd32 a NaN = NaN"
| "fadd32 PosInf NegInf = NaN"
| "fadd32 NegInf PosInf = NaN"
| "fadd32 PosInf b = PosInf"
| "fadd32 NegInf b = NegInf"
| "fadd32 (Fin x) PosInf = PosInf"
| "fadd32 (Fin x) NegInf = NegInf"

fun fsquare32 :: "float \<Rightarrow> float" where
  "fsquare32 (Fin x) = narrow32 (x * x)"
| "fsquare32 NaN = NaN"
| "fsquare32 PosInf = PosInf"
| "fsquare32 NegInf = PosInf"

fun fsqrt32 :: "float \<Rightarrow> float" where
  "fsqrt32 (Fin x) = (if x < 0 then NaN else narrow32 (sqrt x))"
| "fsqrt32 NaN = NaN"
| "fsqrt32 PosInf = PosInf"
| "fsqrt32 NegInf = NaN"

text \<open>
  The order in which numpy sorts floating-point keys: negative infinity, the finite
  values in their order, positive infinity, and NaN last.
\<close>

fun sort_rank :: "float \<Rightarrow> nat \<times> real" where
  "sort_rank NegInf = (0, 0)"
| "sort_rank (Fin x) = (1, x)"
| "sort_rank PosInf = (2, 0)"
| "sort_rank NaN = (3, 0)"

text \<open>
  \<open>np.argsort\<close>: the row numbers ordered by their key. numpy leaves the order of equal
  keys open; the model takes the stable order, and no theorem below depends on how ties
  are broken.
\<close>

definition argsort :: "float list \<Rightarrow> nat list" where
  "argsort ds = sort_key (\<lambda>i. sort_rank (ds ! i)) [0..<length ds]"

text \<open>A Python slice \<open>xs[:j]\<close>: a negative bound counts from the end.\<close>

definition slice_upto :: "'a list \<Rightarrow> int \<Rightarrow> 'a list" where
  "slice_upto xs j = (if 0 \<le> j then take (nat j) xs else take (length xs - nat (- j)) xs)"

subsection \<open>Errors, warnings and control flow\<close>

datatype error =
    IndexError
  | AttributeError
  | TypeError
  | AssertionError
  | RuntimeError string

datatype warning =
    FaissInitError error
  | FaissUnavailable
  | SizeAdjusted nat nat
  | NonFiniteReplaced

text \<open>
  How a block of statements ends: a \<open>return\<close>, an exception, or running off its end
  into the statements that follow.
\<close>

datatype 'a flow = Return 'a | Raise error | Fallthrough

text \<open>
  Reading \<open>xs[i]\<close>, where an index below zero is taken from the end of the list, the
  list comprehension \<open>[xs[i] for i in is]\<close>, and \<open>xs.pop(0)\<close>.
\<close>

definition py_index :: "'a list \<Rightarrow> int \<Rightarrow> error + 'a" where
  "py_index xs i =
     (if 0 \<le> i \<and> i < int (length xs) then Inr (xs ! nat i)
      else if i < 0 \<and> - int (length xs) \<le> i then Inr (xs ! nat (int (length xs) + i))
      else Inl IndexError)"

fun index_all :: "'a list \<Rightarrow> int list \<Rightarrow> error + 'a list" where
  "index_all xs [] = Inr []"
| "index_all xs (i # is) =
     (case py_index xs i of
        Inl e \<Rightarrow> Inl e
      | Inr x \<Rightarrow> (case index_all xs is of Inl e \<Rightarrow> Inl e | Inr ys \<Rightarrow> Inr (x # ys)))"

definition pop0 :: "'a list \<Rightarrow> error + 'a list" where
  "pop0 xs = (case xs of [] \<Rightarrow> Inl IndexError | _ # rest \<Rightarrow> Inr rest)"

subsection \<open>The faiss index\<close>

text \<open>
  faiss is a library outside the repository. Its \<open>IndexIVFFlat\<close> is modelled by its
  contract: a new index is untrained and empty, \<open>train\<close> calibrates the clusters,
  \<open>add\<close> is refused with a RuntimeError until the index is trained, and \<open>search\<close>
  wants a positive \<open>k\<close> and returns \<open>k\<close> labels with their squared distances, nearest
  first, padding with label \<open>-1\<close> when the probed clusters hold fewer than \<open>k\<close> rows.
\<close>

record ivf_index =
  ix_d :: nat
  ix_nlist :: nat
  nprobe :: nat
  is_trained :: bool
  ix_rows :: "float list list"

definition ntotal :: "ivf_index \<Rightarrow> nat" where
  "ntotal ix = length (ix_rows ix)"

text \<open>
  What the model does not fix is a parameter: whether \<open>import faiss\<close> succeeded, whether
  building or training an index raises, the random training data, the order in which
  the probed clusters deliver their rows, and the float32 sum of a row
  (\<open>np.add.reduce\<close> along a row, whose order of additions is numpy's own).
\<close>

record libraries =
  installed :: bool
  ctor_fault :: "nat \<Rightarrow> nat \<Rightarrow> error option"
  train_fault :: "ivf_index \<Rightarrow> float list list \<Rightarrow> error option"
  random_rows :: "nat \<Rightarrow> nat \<Rightarrow> float list list"
  probe_order :: "ivf_index \<Rightarrow> float list \<Rightarrow> nat list"
  add_reduce :: "float list \<Rightarrow> float"

text \<open>
  The squared distance of two float32 rows, and \<open>np.linalg.norm(a - b)\<close>: the
  differences, their squares, the sum of the row and its square root, each in float32.
\<close>

definition sq_dist :: "libraries \<Rightarrow> float list \<Rightarrow> float list \<Rightarrow> float" where
  "sq_dist L a b = add_reduce L (map fsquare32 (map2 fsub32 a b))"

definition row_dist :: "libraries \<Rightarrow> float list \<Rightarrow> float list \<Rightarrow> float" where
  "row_dist L a b = fsqrt32 (sq_dist L a b)"

definition IndexIVFFlat :: "libraries \<Rightarrow> nat \<Rightarrow> nat \<Rightarrow> error + ivf_index" where
  "IndexIVFFlat L d nlist =
     (case ctor_fault L d nlist of
        Some e \<Rightarrow> Inl e
      | None \<Rightarrow> Inr \<lparr>ix_d = d, ix_nlist = nlist, nprobe = 1, is_trained = False, ix_rows = []\<rparr>)"

definition index_train ::
  "libraries \<Rightarrow> ivf_index \<Rightarrow> float list list \<Rightarrow> error + ivf_index" where
  "index_train L ix xs =
     (case train_fault L ix xs of
        Some e \<Rightarrow> Inl e
      | None \<Rightarrow> Inr (ix\<lparr>is_trained := True\<rparr>))"

definition index_add :: "ivf_index \<Rightarrow> float list list \<Rightarrow> error + ivf_index" where
  "index_add ix xs =
     (if is_trained ix then Inr (ix\<lparr>ix_rows := ix_rows ix @ xs\<rparr>)
      else Inl (RuntimeError ''is_trained failed''))"

text \<open>
  \<open>search\<close>. Beside a missing label faiss reports the largest finite float32 as the
  distance.
\<close>

definition index_search ::
  "libraries \<Rightarrow> ivf_index \<Rightarrow> float list \<Rightarrow> int \<Rightarrow> error + (float list \<times> int list)" where
  "index_search L ix q k =
     (if k \<le> 0 then Inl AssertionError
      else
        (let found = take (nat k) (filter (\<lambda>i. i < ntotal ix) (probe_order L ix q));
             missing = nat k - length found
         in Inr (map (\<lambda>i. sq_dist L (ix_rows ix ! i) q) found @ replicate missing (Fin FLT_MAX),
                 map int found @ replicate missing (- 1))))"

subsection \<open>Configuration and state\<close>

record sjpu_config =
  MAX_DB_SIZE :: nat
  N_CLUSTERS :: nat
  N_PROBE :: nat

definition SJPUConfig :: sjpu_config where
  "SJPUConfig = \<lparr>MAX_DB_SIZE = 10000, N_CLUSTERS = 32, N_PROBE = 8\<rparr>"

text \<open>
  \<open>self.knowledge_db\<close> holds either a numpy array of shape \<open>(n, dim)\<close>, kept as the list of
  its rows, or a faiss index.
\<close>

datatype backend = Rows "float list list" | Index ivf_index

record 'm store =
  dim :: nat
  config :: sjpu_config
  metadata :: "'m list"
  vectors :: "float list list"
  use_faiss :: bool
  knowledge_db :: backend
  add_times :: "real list"
  query_times :: "real list"

text \<open>\<open>ndarray.size\<close> of an array with \<open>n\<close> rows of \<open>d\<close> columns.\<close>

definition np_size :: "nat \<Rightarrow> float list list \<Rightarrow> nat" where
  "np_size d rows = length rows * d"

subsection \<open>Construction\<close>

text \<open>
  \<open>_initialize_database\<close>. Only the construction of the index is inside the
  \<open>try\<close>; the training call follows the \<open>try\<close> statement.
\<close>

definition initialize_database ::
  "libraries \<Rightarrow> nat \<Rightarrow> sjpu_config \<Rightarrow> (bool \<times> backend) flow \<times> warning list" where
  "initialize_database L d c =
     (let (use, db, ws) =
            (if installed L then
               (case IndexIVFFlat L d (N_CLUSTERS c) of
                  Inr ix \<Rightarrow> (True, Index (ix\<lparr>nprobe := N_PROBE c\<rparr>), [])
                | Inl e \<Rightarrow> (False, Rows [], [FaissInitError e]))
             else (False, Rows [], [FaissUnavailable]));
          db = (case db of
                  Rows rows \<Rightarrow> if \<not> use \<and> np_size d rows = 0 then Rows [] else db
                | Index ix \<Rightarrow> db)
      in if use \<and> installed L then
           (case db of
              Index ix \<Rightarrow>
                (case index_train L ix (random_rows L (N_CLUSTERS c * 10) d) of
                   Inl e \<Rightarrow> (Raise e, ws)
                 | Inr ix' \<Rightarrow> (Return (use, Index ix'), ws))
            | Rows rows \<Rightarrow> (Raise AttributeError, ws))
         else (Return (use, db), ws))"

text \<open>\<open>__init__\<close>: the object exists only if \<open>_initialize_database\<close> returns.\<close>

definition sjpu_init ::
  "libraries \<Rightarrow> nat \<Rightarrow> sjpu_config \<Rightarrow> 'm store flow \<times> warning list" where
  "sjpu_init L d c =
     (case initialize_database L d c of
        (Return (use, db), ws) \<Rightarrow>
          (Return \<lparr>dim = d, config = c, metadata = [], vectors = [], use_faiss = use,
                   knowledge_db = db, add_times = [], query_times = []\<rparr>, ws)
      | (Raise e, ws) \<Rightarrow> (Raise e, ws)
      | (Fallthrough, ws) \<Rightarrow> (Fallthrough, ws))"

subsection \<open>Sanitising a vector\<close>

definition validate_vector :: "'m store \<Rightarrow> float list \<Rightarrow> float list \<times> warning list" where
  "validate_vector st vec =
     (let (vec1, w1) =
            (if length vec \<noteq> dim st then
               (let old_dim = length vec
                in (if old_dim > dim st then take (dim st) vec
                    else vec @ replicate (dim st - old_dim) (Fin 0),
                    [SizeAdjusted old_dim (dim st)]))
             else (vec, []));
          (vec2, w2) =
            (if \<not> list_all isfinite vec1 then (map nan_to_num vec1, [NonFiniteReplaced])
             else (vec1, []))
      in (vec2, w1 @ w2))"

subsection \<open>Insertion\<close>

text \<open>
  The body of \<open>if self.knowledge_db.ntotal >= self.config.MAX_DB_SIZE\<close> in the faiss
  branch of \<open>add_to_db\<close>: the two \<open>pop(0)\<close>, a new index with its \<open>nprobe\<close>, and the
  bulk \<open>add\<close> of the retained vectors. Each statement that raises leaves the
  assignments made before it in place.
\<close>

definition evict_and_rebuild :: "libraries \<Rightarrow> 'm store \<Rightarrow> unit flow \<times> 'm store" where
  "evict_and_rebuild L st =
     (case pop0 (metadata st) of
        Inl e \<Rightarrow> (Raise e, st)
      | Inr ms \<Rightarrow>
          (let st1 = st\<lparr>metadata := ms\<rparr>
           in case pop0 (vectors st1) of
                Inl e \<Rightarrow> (Raise e, st1)
              | Inr vs \<Rightarrow>
                  (let st2 = st1\<lparr>vectors := vs\<rparr>
                   in case IndexIVFFlat L (dim st2) (N_CLUSTERS (config st2)) of
                        Inl e \<Rightarrow> (Raise e, st2)
                      | Inr ix \<Rightarrow>
                          (let ix1 = ix\<lparr>nprobe := N_PROBE (config st2)\<rparr>;
                               st3 = st2\<lparr>knowledge_db := Index ix1\<rparr>
                           in if vectors st3 \<noteq> [] then
                                (case index_add ix1 (vectors st3) of
                                   Inl e \<Rightarrow> (Raise e, st3)
                                 | Inr ix2 \<Rightarrow> (Fallthrough, st3\<lparr>knowledge_db := Index ix2\<rparr>))
                              else (Fallthrough, st3)))))"

text \<open>The faiss branch of \<open>add_to_db\<close>.\<close>

definition add_faiss ::
  "libraries \<Rightarrow> 'm store \<Rightarrow> float list \<Rightarrow> 'm \<Rightarrow> unit flow \<times> 'm store" where
  "add_faiss L st vec_f32 meta =
     (case knowledge_db st of
        Rows rows \<Rightarrow> (Raise AttributeError, st)
      | Index ix \<Rightarrow>
          (let (fl, st1) =
                 (if ntotal ix \<ge> MAX_DB_SIZE (config st) then evict_and_rebuild L st
                  else (Fallthrough, st))
           in case fl of
                Fallthrough \<Rightarrow>
                  (case knowledge_db st1 of
                     Rows rows \<Rightarrow> (Raise AttributeError, st1)
                   | Index ix1 \<Rightarrow>
                       (case index_add ix1 [vec_f32] of
                          Inl e \<Rightarrow> (Raise e, st1)
                        | Inr ix2 \<Rightarrow>
                            (Fallthrough,
                             st1\<lparr>knowledge_db := Index ix2,
                                 vectors := vectors st1 @ [vec_f32],
                                 metadata := metadata st1 @ [meta]\<rparr>)))
              | Raise e \<Rightarrow> (Raise e, st1)
              | Return r \<Rightarrow> (Return r, st1)))"

text \<open>
  The numpy branch of \<open>add_to_db\<close>. \<open>knowledge_db[1:]\<close> is assigned before
  \<open>metadata.pop(0)\<close> runs; \<open>np.vstack\<close> is used only when the array has a non-zero
  \<open>size\<close>, otherwise the new row becomes the whole array.
\<close>

definition add_numpy :: "'m store \<Rightarrow> float list \<Rightarrow> 'm \<Rightarrow> unit flow \<times> 'm store" where
  "add_numpy st vec_f32 meta =
     (case knowledge_db st of
        Index ix \<Rightarrow> (Raise TypeError, st)
      | Rows rows \<Rightarrow>
          (let (fl, st1, rows1) =
                 (if length rows \<ge> MAX_DB_SIZE (config st) then
                    (let rows' = drop 1 rows;
                         st' = st\<lparr>knowledge_db := Rows rows'\<rparr>
                     in case pop0 (metadata st') of
                          Inl e \<Rightarrow> (Raise e, st', rows')
                        | Inr ms \<Rightarrow> (Fallthrough, st'\<lparr>metadata := ms\<rparr>, rows'))
                  else (Fallthrough, st, rows))
           in case fl of
                Fallthrough \<Rightarrow>
                  (Fallthrough,
                   st1\<lparr>knowledge_db :=
                         Rows (if np_size (dim st1) rows1 \<noteq> 0 then rows1 @ [vec_f32]
                               else [vec_f32]),
                       metadata := metadata st1 @ [meta]\<rparr>)
              | Raise e \<Rightarrow> (Raise e, st1)
              | Return r \<Rightarrow> (Return r, st1)))"

text \<open>
  \<open>add_to_db\<close>. \<open>elapsed\<close> is \<open>end_time - start_time\<close> as the clock gives it. Both
  branches run off their end, so the time is recorded whenever nothing raised.
\<close>

definition add_to_db ::
  "libraries \<Rightarrow> real \<Rightarrow> 'm store \<Rightarrow> float list \<Rightarrow> 'm \<Rightarrow> unit flow \<times> warning list \<times> 'm store" where
  "add_to_db L elapsed st vec meta =
     (let (v, ws) = validate_vector st vec;
          vec_f32 = astype_f32 v;
          (fl, st1) = (if use_faiss st then add_faiss L st vec_f32 meta
                       else add_numpy st vec_f32 meta)
      in case fl of
           Fallthrough \<Rightarrow> (Return (), ws, st1\<lparr>add_times := add_times st1 @ [elapsed]\<rparr>)
         | Raise e \<Rightarrow> (Raise e, ws, st1)
         | Return r \<Rightarrow> (Return r, ws, st1))"

subsection \<open>Query\<close>

text \<open>The faiss branch of \<open>query_db\<close>: every path through it returns or raises.\<close>

definition query_faiss ::
  "libraries \<Rightarrow> 'm store \<Rightarrow> float list \<Rightarrow> int \<Rightarrow> ('m list \<times> float list) flow" where
  "query_faiss L st query_f32 k =
     (case knowledge_db st of
        Rows rows \<Rightarrow> Raise AttributeError
      | Index ix \<Rightarrow>
          if ntotal ix = 0 then Return ([], [])
          else
            (let k' = min k (int (ntotal ix))
             in case index_search L ix query_f32 k' of
                  Inl e \<Rightarrow> Raise e
                | Inr (D, I) \<Rightarrow>
                    (case index_all (metadata st) I of
                       Inl e \<Rightarrow> Raise e
                     | Inr ms \<Rightarrow> Return (ms, D))))"

text \<open>The row numbers \<open>np.argsort(dists)[:min(k, len(dists))]\<close> of the numpy branch.\<close>

definition nearest_idx :: "float list \<Rightarrow> int \<Rightarrow> nat list" where
  "nearest_idx dists k = slice_upto (argsort dists) (min k (int (length dists)))"

definition query_numpy ::
  "libraries \<Rightarrow> 'm store \<Rightarrow> float list \<Rightarrow> int \<Rightarrow> ('m list \<times> float list) flow" where
  "query_numpy L st query_f32 k =
     (case knowledge_db st of
        Index ix \<Rightarrow> Raise TypeError
      | Rows rows \<Rightarrow>
          if length rows = 0 then Return ([], [])
          else
            (let dists = map (\<lambda>r. row_dist L r query_f32) rows;
                 idx = nearest_idx dists k
             in case index_all (metadata st) (map int idx) of
                  Inl e \<Rightarrow> Raise e
                | Inr ms \<Rightarrow> Return (ms, map (\<lambda>i. dists ! i) idx)))"

text \<open>
  \<open>query_db\<close>. The two statements that record the query time stand after the
  \<open>if\<close>/\<open>else\<close>; they run only if the branch taken runs off its end, and then the
  function returns \<open>None\<close>.
\<close>

definition query_db ::
  "libraries \<Rightarrow> real \<Rightarrow> 'm store \<Rightarrow> float list \<Rightarrow> int \<Rightarrow>
     ('m list \<times> float list) option flow \<times> warning list \<times> 'm store" where
  "query_db L elapsed st query_vec k =
     (let (v, ws) = validate_vector st query_vec;
          query_f32 = astype_f32 v;
          fl = (if use_faiss st then query_faiss L st query_f32 k
                else query_numpy L st query_f32 k)
      in case fl of
           Return r \<Rightarrow> (Return (Some r), ws, st)
         | Raise e \<Rightarrow> (Raise e, ws, st)
         | Fallthrough \<Rightarrow>
             (Return None, ws, st\<lparr>query_times := query_times st @ [elapsed]\<rparr>))"

subsection \<open>Statistics\<close>

record stats =
  stat_dim :: nat
  db_size :: nat
  max_db_size :: nat
  using_faiss :: bool
  metadata_count :: nat

definition store_size :: "'m store \<Rightarrow> error + nat" where
  "store_size st =
     (if use_faiss st then
        (case knowledge_db st of Index ix \<Rightarrow> Inr (ntotal ix) | Rows rows \<Rightarrow> Inl AttributeError)
      else
        (case knowledge_db st of Rows rows \<Rightarrow> Inr (length rows) | Index ix \<Rightarrow> Inl TypeError))"

definition get_system_stats :: "'m store \<Rightarrow> error + stats" where
  "get_system_stats st =
     (case store_size st of
        Inl e \<Rightarrow> Inl e
      | Inr n \<Rightarrow>
          Inr \<lparr>stat_dim = dim st, db_size = n, max_db_size = MAX_DB_SIZE (config st),
               using_faiss = use_faiss st, metadata_count = length (metadata st)\<rparr>)"

subsection \<open>Sequences of operations\<close>

text \<open>
  A caller that performs operations one after the other on the same object, as
  \<open>benchmark_db\<close> does with \<open>add_to_db\<close> and \<open>query_db\<close>. An exception leaves the object
  as the raising statement found it; \<open>run\<close> goes on with that object, so the state after
  every prefix of a sequence, failed calls included, is a state \<open>run\<close> reaches.
\<close>

datatype 'm op = Add real "float list" 'm | Query real "float list" int

fun step :: "libraries \<Rightarrow> 'm store \<Rightarrow> 'm op \<Rightarrow> 'm store" where
  "step L st (Add t vec meta) = snd (snd (add_to_db L t st vec meta))"
| "step L st (Query t vec k) = snd (snd (query_db L t st vec k))"

definition run :: "libraries \<Rightarrow> 'm store \<Rightarrow> 'm op list \<Rightarrow> 'm store" where
  "run L st ops = foldl (step L) st ops"

text \<open>The store a successful construction gives, for either backend.\<close>

definition numpy_store :: "nat \<Rightarrow> sjpu_config \<Rightarrow> 'm store" where
  "numpy_store d c =
     \<lparr>dim = d, config = c, metadata = [], vectors = [], use_faiss = False,
      knowledge_db = Rows [], add_times = [], query_times = []\<rparr>"

definition faiss_store :: "nat \<Rightarrow> sjpu_config \<Rightarrow> 'm store" where
  "faiss_store d c =
     \<lparr>dim = d, config = c, metadata = [], vectors = [], use_faiss = True,
      knowledge_db = Index \<lparr>ix_d = d, ix_nlist = N_CLUSTERS c, nprobe = N_PROBE c,
                             is_trained = True, ix_rows = []\<rparr>,
      add_times = [], query_times = []\<rparr>"

subsection \<open>Environments and inputs used as examples\<close>

text \<open>A row summed from the left, starting from zero.\<close>

definition left_sum :: "float list \<Rightarrow> float" where
  "left_sum xs = foldl fadd32 (Fin 0) xs"

text \<open>\<open>import faiss\<close> failed.\<close>

definition no_faiss :: libraries where
  "no_faiss =
     \<lparr>installed = False, ctor_fault = (\<lambda>d nlist. None), train_fault = (\<lambda>ix xs. None),
      random_rows = (\<lambda>n d. replicate n (replicate d (Fin 0))),
      probe_order = (\<lambda>ix q. [0..<length (ix_rows ix)]),
      add_reduce = left_sum\<rparr>"

text \<open>faiss is installed and neither building nor training an index raises.\<close>

definition faiss_ok :: libraries where
  "faiss_ok = no_faiss\<lparr>installed := True\<rparr>"

text \<open>faiss is installed and building the index raises.\<close>

definition faiss_ctor_fails :: libraries where
  "faiss_ctor_fails = faiss_ok\<lparr>ctor_fault := (\<lambda>d nlist. Some (RuntimeError ''bad index''))\<rparr>"

text \<open>faiss is installed, the index is built, and training it raises.\<close>

definition faiss_train_fails :: libraries where
  "faiss_train_fails =
     faiss_ok\<lparr>train_fault := (\<lambda>ix xs. Some (RuntimeError ''clustering failed''))\<rparr>"

definition capacity :: "nat \<Rightarrow> sjpu_config" where
  "capacity n = SJPUConfig\<lparr>MAX_DB_SIZE := n\<rparr>"

text \<open>
  An indexed store of dimension 1 and capacity 2 after two insertions, and the same
  object after a third insertion was attempted.
\<close>

definition full_index_store :: "nat store" where
  "full_index_store =
     \<lparr>dim = 1, config = capacity 2, metadata = [10, 20],
      vectors = [[Fin 1], [Fin 2]], use_faiss = True,
      knowledge_db = Index \<lparr>ix_d = 1, ix_nlist = 32, nprobe = 8, is_trained = True,
                             ix_rows = [[Fin 1], [Fin 2]]\<rparr>,
      add_times = [0, 0], query_times = []\<rparr>"

definition broken_index_store :: "nat store" where
  "broken_index_store =
     \<lparr>dim = 1, config = capacity 2, metadata = [20], vectors = [[Fin 2]],
      use_faiss = True,
      knowledge_db = Index \<lparr>ix_d = 1, ix_nlist = 32, nprobe = 8, is_trained = False,
                             ix_rows = []\<rparr>,
      add_times = [0, 0], query_times = []\<rparr>"

subsection \<open>Notions used to state the properties\<close>

text \<open>A sequence cut or zero-padded to \<open>d\<close> entries.\<close>

definition resized :: "nat \<Rightarrow> float list \<Rightarrow> float list" where
  "resized d vec = take d vec @ replicate (d - length vec) (Fin 0)"

text \<open>What \<open>add_to_db\<close> stores and \<open>query_db\<close> searches for, given the caller's sequence.\<close>

definition sanitized :: "'m store \<Rightarrow> float list \<Rightarrow> float list" where
  "sanitized st vec = astype_f32 (fst (validate_vector st vec))"

text \<open>
  A store as construction leaves it and successful insertions keep it: the backend
  object agrees with the flag, there is one metadata record per stored row, every row
  has \<open>dim\<close> entries, and an index has been trained and holds the raw vectors.
\<close>

definition store_ok :: "'m store \<Rightarrow> bool" where
  "store_ok st =
     (case knowledge_db st of
        Rows rows \<Rightarrow>
          \<not> use_faiss st \<and> length (metadata st) = length rows \<and>
          list_all (\<lambda>r. length r = dim st) rows
      | Index ix \<Rightarrow>
          use_faiss st \<and> length (metadata st) = ntotal ix \<and> is_trained ix \<and>
          vectors st = ix_rows ix)"

text \<open>The last \<open>n\<close> elements of a list, and a sequence of insertions as operations.\<close>

definition last_n :: "nat \<Rightarrow> 'a list \<Rightarrow> 'a list" where
  "last_n n xs = drop (length xs - n) xs"

definition inserts :: "(real \<times> float list \<times> 'm) list \<Rightarrow> 'm op list" where
  "inserts xs = map (\<lambda>(t, vec, meta). Add t vec meta) xs"

text \<open>How many metadata records and how many distances a query returned.\<close>

fun result_count :: "('m list \<times> float list) option flow \<Rightarrow> (nat \<times> nat) option" where
  "result_count (Return (Some (ms, ds))) = Some (length ms, length ds)"
| "result_count (Return None) = None"
| "result_count (Raise e) = None"
| "result_count Fallthrough = None"

text \<open>
  A fallback store of dimension 2 holding two rows, as two insertions into
  \<open>numpy_store 2 (capacity 3)\<close> leave it.
\<close>

definition two_row_store :: "string store" where
  "two_row_store =
     \<lparr>dim = 2, config = capacity 3, metadata = [''A'', ''B''], vectors = [],
      use_faiss = False, knowledge_db = Rows [[Fin 0, Fin 0], [Fin 0, Fin 1]],
      add_times = [0, 0], query_times = []\<rparr>"



fun returned :: "'a flow \<Rightarrow> bool" where
  "returned (Return r) = True"
| "returned (Raise e) = False"
| "returned Fallthrough = False"

section \<open>Properties\<close>

subsection \<open>Sanitising\<close>

lemma DBL_MAX_pos: "0 < DBL_MAX"
  by (simp add: DBL_MAX_def)

lemma nan_to_num_finite: "isfinite (nan_to_num x)"
  by (cases x) simp_all

lemma nan_to_num_id: "isfinite x \<Longrightarrow> nan_to_num x = x"
  by (cases x) simp_all

lemma map_nan_to_num_id: "list_all isfinite xs \<Longrightarrow> map nan_to_num xs = xs"
  by (induction xs) (simp_all add: nan_to_num_id)

lemma length_resized: "length (resized d vec) = d"
  by (simp add: resized_def)

lemma validate_vector_fst:
  "fst (validate_vector st vec) = map nan_to_num (resized (dim st) vec)"
  by (auto simp: validate_vector_def resized_def Let_def map_nan_to_num_id)

lemma validate_vector_snd:
  "snd (validate_vector st vec) =
     (if length vec \<noteq> dim st then [SizeAdjusted (length vec) (dim st)] else []) @
     (if list_all isfinite (resized (dim st) vec) then [] else [NonFiniteReplaced])"
  by (auto simp: validate_vector_def resized_def Let_def)

lemma length_sanitized: "length (sanitized st vec) = dim st"
  by (simp add: sanitized_def astype_f32_def validate_vector_fst length_resized)

text \<open>
  C4, as the code has it. \<open>validate_vector\<close> returns exactly \<open>dim\<close> entries, all of them
  finite: the input cut to \<open>dim\<close> entries or padded with zeros, with NaN replaced by 0,
  positive infinity by the largest finite double and negative infinity by the most
  negative one. It warns once when the length was adjusted and once when some entry
  of the adjusted vector was not finite.
\<close>

theorem validate_vector_repairs:
  "length (fst (validate_vector st vec)) = dim st \<and>
   list_all isfinite (fst (validate_vector st vec)) \<and>
   fst (validate_vector st vec) = map nan_to_num (resized (dim st) vec) \<and>
   nan_to_num NaN = Fin 0 \<and> nan_to_num PosInf = Fin DBL_MAX \<and>
   nan_to_num NegInf = Fin (- DBL_MAX) \<and> 0 < DBL_MAX \<and>
   snd (validate_vector st vec) =
     (if length vec \<noteq> dim st then [SizeAdjusted (length vec) (dim st)] else []) @
     (if list_all isfinite (resized (dim st) vec) then [] else [NonFiniteReplaced])"
  by (simp add: validate_vector_fst validate_vector_snd length_resized list_all_iff
      nan_to_num_finite DBL_MAX_pos)

text \<open>
  C4, as the claim states it, fails where an entry is infinite: for \<open>dim = 1\<close> the
  sequence holding positive infinity is not turned into the zero vector.
\<close>

theorem validate_vector_inf_not_zero:
  "fst (validate_vector (numpy_store 1 SJPUConfig :: unit store) [PosInf]) \<noteq> [Fin 0]"
  using DBL_MAX_pos by (simp add: validate_vector_def numpy_store_def)

subsection \<open>float32 values\<close>

lemma f32_exponent_eq:
  assumes "2 powi e \<le> \<bar>x\<bar>" "\<bar>x\<bar> < 2 powi (e + 1)" "- 126 \<le> e"
  shows "f32_exponent x = e"
proof -
  have pos: "0 < \<bar>x\<bar>" using assms(1) by (smt (verit) zero_less_power_int)
  have "(2::real) powr real_of_int e = 2 powi e" "(2::real) powr (real_of_int e + 1) = 2 powi (e + 1)"
    using powr_real_of_int'[of "2::real" e] powr_real_of_int'[of "2::real" "e + 1"] by simp_all
  then have "\<lfloor>log 2 \<bar>x\<bar>\<rfloor> = e"
    using floor_log_eq_powr_iff[of "\<bar>x\<bar>" 2 e] pos assms(1,2) by simp
  then show ?thesis using assms(3) by (simp add: f32_exponent_def)
qed

lemma round_half_even_int: "round_half_even (of_int m) = m"
  by (simp add: round_half_even_def)

lemma round32_on_grid:
  assumes "x \<noteq> 0" "f32_exponent x = e" "x = of_int m * 2 powi (e - 23)"
  shows "round32 x = x"
proof -
  have "x / 2 powi (e - 23) = of_int m" using assms(3) by simp
  then show ?thesis using assms by (simp add: round32_def round_half_even_int)
qed


lemma round32_1: "round32 1 = 1"
proof (rule round32_on_grid[where e = 0 and m = "2 ^ 23"])
  show "f32_exponent 1 = 0" by (rule f32_exponent_eq) simp_all
qed (simp_all add: power_int_def power_one_over)


lemma round32_2: "round32 2 = 2"
proof (rule round32_on_grid[where e = 1 and m = "2 ^ 23"])
  show "f32_exponent 2 = 1" by (rule f32_exponent_eq) simp_all
qed (simp_all add: power_int_def power_one_over)

lemma round32_3: "round32 3 = 3"
proof (rule round32_on_grid[where e = 1 and m = "3 * 2 ^ 22"])
  show "f32_exponent 3 = 1" by (rule f32_exponent_eq) simp_all
qed (simp_all add: power_int_def power_one_over)

lemma FLT_OVERFLOW_gt: "3 < FLT_OVERFLOW"
  by (simp add: FLT_OVERFLOW_def)


lemma narrow32_1: "narrow32 1 = Fin 1"
  using FLT_OVERFLOW_gt by (simp add: narrow32_def round32_1)


lemma narrow32_2: "narrow32 2 = Fin 2"
  using FLT_OVERFLOW_gt by (simp add: narrow32_def round32_2)

lemma narrow32_3: "narrow32 3 = Fin 3"
  using FLT_OVERFLOW_gt by (simp add: narrow32_def round32_3)


lemma narrow32_1e39: "narrow32 (10 ^ 39) = PosInf"
  by (simp add: narrow32_def FLT_OVERFLOW_def)

lemma narrow32_DBL_MAX: "narrow32 DBL_MAX = PosInf"
  by (simp add: narrow32_def FLT_OVERFLOW_def DBL_MAX_def)






subsection \<open>Construction\<close>

lemma init_no_faiss:
  "\<not> installed L \<Longrightarrow> sjpu_init L d c = (Return (numpy_store d c), [FaissUnavailable])"
  by (simp add: sjpu_init_def initialize_database_def numpy_store_def np_size_def)

lemma init_ctor_raises:
  "installed L \<Longrightarrow> ctor_fault L d (N_CLUSTERS c) = Some e \<Longrightarrow>
   sjpu_init L d c = (Return (numpy_store d c), [FaissInitError e])"
  by (simp add: sjpu_init_def initialize_database_def numpy_store_def np_size_def
      IndexIVFFlat_def)

lemma init_faiss_ok:
  assumes "installed L" "ctor_fault L d (N_CLUSTERS c) = None"
    "train_fault L \<lparr>ix_d = d, ix_nlist = N_CLUSTERS c, nprobe = N_PROBE c,
        is_trained = False, ix_rows = []\<rparr> (random_rows L (N_CLUSTERS c * 10) d) = None"
  shows "sjpu_init L d c = (Return (faiss_store d c), [])"
  using assms
  by (simp add: sjpu_init_def initialize_database_def IndexIVFFlat_def index_train_def
      faiss_store_def)

lemma init_train_raises:
  assumes "installed L" "ctor_fault L d (N_CLUSTERS c) = None"
    "train_fault L \<lparr>ix_d = d, ix_nlist = N_CLUSTERS c, nprobe = N_PROBE c,
        is_trained = False, ix_rows = []\<rparr> (random_rows L (N_CLUSTERS c * 10) d) = Some e"
  shows "sjpu_init L d c = (Raise e, [])"
  using assms
  by (simp add: sjpu_init_def initialize_database_def IndexIVFFlat_def index_train_def)

text \<open>
  C1. When faiss is installed and the index is built, an exception of the training call
  leaves \<open>_initialize_database\<close> and \<open>__init__\<close>: no store is constructed, no warning is
  recorded and nothing falls back to the exhaustive backend. (Where faiss is missing or
  building the index raises, the store does fall back with a warning: \<open>init_no_faiss\<close>,
  \<open>init_ctor_raises\<close>.)
\<close>

theorem init_training_failure_escapes:
  assumes "installed L" and "ctor_fault L d (N_CLUSTERS c) = None"
    and "train_fault L \<lparr>ix_d = d, ix_nlist = N_CLUSTERS c, nprobe = N_PROBE c,
        is_trained = False, ix_rows = []\<rparr> (random_rows L (N_CLUSTERS c * 10) d) = Some e"
  shows "fst (sjpu_init L d c :: 'm store flow \<times> warning list) = Raise e \<and>
         snd (sjpu_init L d c :: 'm store flow \<times> warning list) = [] \<and>
         \<not> returned (fst (sjpu_init L d c :: 'm store flow \<times> warning list))"
  by (simp add: init_train_raises[OF assms])

theorem init_training_failure_escapes_witness:
  "fst (sjpu_init faiss_train_fails 4 (capacity 3) :: nat store flow \<times> warning list)
     = Raise (RuntimeError ''clustering failed'') \<and>
   \<not> returned (fst (sjpu_init faiss_train_fails 4 (capacity 3) :: nat store flow \<times> warning list))"
  using init_training_failure_escapes[of faiss_train_fails 4 "capacity 3"
      "RuntimeError ''clustering failed''", where ?'m = nat]
  by (simp add: faiss_train_fails_def faiss_ok_def no_faiss_def)

subsection \<open>Insertion, one call\<close>

lemma add_to_db_faiss_room:
  assumes "use_faiss st" "knowledge_db st = Index ix" "ntotal ix < MAX_DB_SIZE (config st)"
    "is_trained ix"
  shows "add_to_db L t st vec meta =
    (Return (), snd (validate_vector st vec),
     st\<lparr>knowledge_db := Index (ix\<lparr>ix_rows := ix_rows ix @ [sanitized st vec]\<rparr>),
        vectors := vectors st @ [sanitized st vec],
        metadata := metadata st @ [meta],
        add_times := add_times st @ [t]\<rparr>)"
  using assms
  by (simp add: add_to_db_def add_faiss_def index_add_def split_beta Let_def sanitized_def)

lemma add_to_db_faiss_full:
  assumes "use_faiss st" "knowledge_db st = Index ix" "MAX_DB_SIZE (config st) \<le> ntotal ix"
    "metadata st = m0 # ms" "vectors st = v0 # vs"
    "ctor_fault L (dim st) (N_CLUSTERS (config st)) = None"
  shows "add_to_db L t st vec meta =
    (Raise (RuntimeError ''is_trained failed''), snd (validate_vector st vec),
     st\<lparr>metadata := ms, vectors := vs,
        knowledge_db := Index \<lparr>ix_d = dim st, ix_nlist = N_CLUSTERS (config st),
          nprobe = N_PROBE (config st), is_trained = False, ix_rows = []\<rparr>\<rparr>)"
  using assms
  by (simp add: add_to_db_def add_faiss_def evict_and_rebuild_def pop0_def IndexIVFFlat_def
      index_add_def split_beta Let_def)

lemma add_to_db_numpy:
  assumes "\<not> use_faiss st" "knowledge_db st = Rows rows" "0 < dim st"
    "MAX_DB_SIZE (config st) \<le> length rows \<longrightarrow> metadata st \<noteq> []"
  shows "add_to_db L t st vec meta =
    (Return (), snd (validate_vector st vec),
     st\<lparr>knowledge_db :=
          Rows ((if MAX_DB_SIZE (config st) \<le> length rows then drop 1 rows else rows)
                @ [sanitized st vec]),
        metadata :=
          (if MAX_DB_SIZE (config st) \<le> length rows then tl (metadata st) else metadata st)
          @ [meta],
        add_times := add_times st @ [t]\<rparr>)"
  using assms
  by (cases "metadata st")
     (auto simp: add_to_db_def add_numpy_def pop0_def np_size_def split_beta Let_def
        sanitized_def)

lemma IndexIVFFlat_ignores_training:
  "IndexIVFFlat (L\<lparr>train_fault := f\<rparr>) d nlist = IndexIVFFlat L d nlist"
  by (simp add: IndexIVFFlat_def)

lemma evict_and_rebuild_ignores_training:
  "evict_and_rebuild (L\<lparr>train_fault := f\<rparr>) st = evict_and_rebuild L st"
  unfolding evict_and_rebuild_def IndexIVFFlat_ignores_training by (rule refl)

lemma add_faiss_ignores_training:
  "add_faiss (L\<lparr>train_fault := f\<rparr>) st v meta = add_faiss L st v meta"
  unfolding add_faiss_def evict_and_rebuild_ignores_training by (rule refl)

lemma add_to_db_ignores_training:
  "add_to_db (L\<lparr>train_fault := f\<rparr>) t st vec meta = add_to_db L t st vec meta"
  unfolding add_to_db_def add_faiss_ignores_training by (rule refl)

text \<open>
  C7. An insertion into a full indexed store pops the oldest metadata record and raw
  vector and builds a new index, but never trains it: the call does not depend on the
  training routine at all, the bulk \<open>add\<close> (or, with no vector retained, the \<open>add\<close> of
  the new row) is refused by the untrained index, and the store is left holding a new,
  untrained, empty index.
\<close>

theorem rebuild_never_trains:
  assumes "use_faiss st" and "knowledge_db st = Index ix"
    and "MAX_DB_SIZE (config st) \<le> ntotal ix"
    and "metadata st = m0 # ms" and "vectors st = v0 # vs"
    and "ctor_fault L (dim st) (N_CLUSTERS (config st)) = None"
  shows "add_to_db (L\<lparr>train_fault := f\<rparr>) t st vec meta = add_to_db L t st vec meta \<and>
         fst (add_to_db L t st vec meta) = Raise (RuntimeError ''is_trained failed'') \<and>
         knowledge_db (snd (snd (add_to_db L t st vec meta))) =
           Index \<lparr>ix_d = dim st, ix_nlist = N_CLUSTERS (config st),
                  nprobe = N_PROBE (config st), is_trained = False, ix_rows = []\<rparr> \<and>
         metadata (snd (snd (add_to_db L t st vec meta))) = ms \<and>
         vectors (snd (snd (add_to_db L t st vec meta))) = vs"
  by (simp add: add_to_db_ignores_training add_to_db_faiss_full[OF assms])

theorem rebuild_never_trains_witness:
  "fst (add_to_db faiss_ok 0 full_index_store [Fin 3] 30)
     = Raise (RuntimeError ''is_trained failed'') \<and>
   knowledge_db (snd (snd (add_to_db faiss_ok 0 full_index_store [Fin 3] 30))) =
     Index \<lparr>ix_d = 1, ix_nlist = 32, nprobe = 8, is_trained = False, ix_rows = []\<rparr>"
  using rebuild_never_trains[of full_index_store
      "\<lparr>ix_d = 1, ix_nlist = 32, nprobe = 8, is_trained = True,
         ix_rows = [[Fin 1], [Fin 2]]\<rparr>"
      10 "[20]" "[Fin 1]" "[[Fin 2]]" faiss_ok "train_fault faiss_ok" 0 "[Fin 3]" 30]
  by (simp add: full_index_store_def capacity_def SJPUConfig_def ntotal_def faiss_ok_def
      no_faiss_def)

subsection \<open>An indexed store of capacity 2 receiving three vectors\<close>

lemma sanitized_single: "dim st = 1 \<Longrightarrow> sanitized st [Fin x] = [narrow32 x]"
  by (simp add: sanitized_def validate_vector_def astype_f32_def)

lemma run_append: "run L st (xs @ ys) = run L (run L st xs) ys"
  by (simp add: run_def)

lemma init_index_store:
  "sjpu_init faiss_ok 1 (capacity 2) = (Return (faiss_store 1 (capacity 2)), [])"
  by (rule init_faiss_ok) (simp_all add: faiss_ok_def no_faiss_def)

lemma fill_index_store:
  "run faiss_ok (faiss_store 1 (capacity 2)) [Add 0 [Fin 1] 10, Add 0 [Fin 2] 20]
     = full_index_store"
proof -
  let ?s1 = "snd (snd (add_to_db faiss_ok 0 (faiss_store 1 (capacity 2)) [Fin 1] (10::nat)))"
  have s1: "?s1 =
      \<lparr>dim = 1, config = capacity 2, metadata = [10], vectors = [[Fin 1]],
       use_faiss = True,
       knowledge_db = Index \<lparr>ix_d = 1, ix_nlist = 32, nprobe = 8, is_trained = True,
                              ix_rows = [[Fin 1]]\<rparr>,
       add_times = [0], query_times = []\<rparr>"
    by (subst add_to_db_faiss_room[where
          ix = "\<lparr>ix_d = 1, ix_nlist = 32, nprobe = 8, is_trained = True, ix_rows = []\<rparr>"])
       (simp_all add: faiss_store_def capacity_def SJPUConfig_def ntotal_def sanitized_single
          narrow32_1)
  have s2: "snd (snd (add_to_db faiss_ok 0 ?s1 [Fin 2] 20)) = full_index_store"
    unfolding s1
    by (subst add_to_db_faiss_room[where
          ix = "\<lparr>ix_d = 1, ix_nlist = 32, nprobe = 8, is_trained = True,
                 ix_rows = [[Fin 1]]\<rparr>"])
       (simp_all add: full_index_store_def capacity_def SJPUConfig_def ntotal_def
          sanitized_single narrow32_2)
  show ?thesis using s2 by (simp add: run_def)
qed

lemma overflow_index_store:
  "add_to_db faiss_ok 0 full_index_store [Fin 3] 30 =
     (Raise (RuntimeError ''is_trained failed''), [], broken_index_store)"
  by (subst add_to_db_faiss_full[where
        ix = "\<lparr>ix_d = 1, ix_nlist = 32, nprobe = 8, is_trained = True,
               ix_rows = [[Fin 1], [Fin 2]]\<rparr>"
        and ?m0.0 = 10 and ms = "[20]" and ?v0.0 = "[Fin 1]" and vs = "[[Fin 2]]"])
     (simp_all add: full_index_store_def broken_index_store_def capacity_def SJPUConfig_def
        ntotal_def faiss_ok_def no_faiss_def validate_vector_def)

lemma run_overflow:
  "run faiss_ok (faiss_store 1 (capacity 2))
     [Add 0 [Fin 1] 10, Add 0 [Fin 2] 20, Add 0 [Fin 3] 30] = broken_index_store"
proof -
  have "run faiss_ok (faiss_store 1 (capacity 2))
          ([Add 0 [Fin 1] 10, Add 0 [Fin 2] 20] @ [Add 0 [Fin 3] (30::nat)]) =
        run faiss_ok full_index_store [Add 0 [Fin 3] 30]"
    by (simp only: run_append fill_index_store)
  also have "\<dots> = broken_index_store"
    by (simp add: run_def overflow_index_store)
  finally show ?thesis by simp
qed

text \<open>
  C2, on the indexed backend. With faiss installed, a store of dimension 1 and capacity
  2 is constructed and takes the vectors 1 and 2; the third insertion raises, and the
  object is left with the metadata and raw vector of the second insertion only and an
  empty index: not the last two inserted.
\<close>

theorem index_store_loses_entries:
  "sjpu_init faiss_ok 1 (capacity 2) = (Return (faiss_store 1 (capacity 2)), []) \<and>
   run faiss_ok (faiss_store 1 (capacity 2)) [Add 0 [Fin 1] (10::nat), Add 0 [Fin 2] 20]
     = full_index_store \<and>
   fst (add_to_db faiss_ok 0 full_index_store [Fin 3] 30)
     = Raise (RuntimeError ''is_trained failed'') \<and>
   metadata (run faiss_ok (faiss_store 1 (capacity 2))
     [Add 0 [Fin 1] (10::nat), Add 0 [Fin 2] 20, Add 0 [Fin 3] 30]) = [20] \<and>
   vectors (run faiss_ok (faiss_store 1 (capacity 2))
     [Add 0 [Fin 1] (10::nat), Add 0 [Fin 2] 20, Add 0 [Fin 3] 30]) = [[Fin 2]] \<and>
   store_size (run faiss_ok (faiss_store 1 (capacity 2))
     [Add 0 [Fin 1] (10::nat), Add 0 [Fin 2] 20, Add 0 [Fin 3] 30]) = Inr 0"
  by (simp only: init_index_store fill_index_store overflow_index_store run_overflow)
     (simp add: broken_index_store_def store_size_def ntotal_def)

text \<open>
  C6, on the indexed backend. After the same three calls \<open>get_system_stats\<close> reports
  the current size 0 and the metadata count 1.
\<close>

theorem index_store_stats_disagree:
  "get_system_stats (run faiss_ok (faiss_store 1 (capacity 2))
     [Add 0 [Fin 1] (10::nat), Add 0 [Fin 2] 20, Add 0 [Fin 3] 30]) =
   Inr \<lparr>stat_dim = 1, db_size = 0, max_db_size = 2, using_faiss = True, metadata_count = 1\<rparr>"
  by (simp only: run_overflow)
     (simp add: get_system_stats_def store_size_def broken_index_store_def ntotal_def
        capacity_def SJPUConfig_def)

subsection \<open>Query\<close>

lemma index_all_nat:
  "\<forall>i\<in>set idx. i < length xs \<Longrightarrow> index_all xs (map int idx) = Inr (map (\<lambda>i. xs ! i) idx)"
  by (induction idx) (simp_all add: py_index_def)

lemma index_all_valid:
  "\<forall>i\<in>set js. - int (length xs) \<le> i \<and> i < int (length xs) \<Longrightarrow>
   \<exists>ys. index_all xs js = Inr ys \<and> length ys = length js"
  by (induction js) (auto simp: py_index_def)

lemma set_argsort: "set (argsort ds) = {0..<length ds}"
  by (simp add: argsort_def)

lemma length_argsort: "length (argsort ds) = length ds"
  by (simp add: argsort_def)



lemma set_nearest_idx: "set (nearest_idx ds k) \<subseteq> {0..<length ds}"
proof -
  have "set (nearest_idx ds k) \<subseteq> set (argsort ds)"
    unfolding nearest_idx_def slice_upto_def by (auto dest: in_set_takeD)
  then show ?thesis by (simp only: set_argsort)
qed

lemma length_nearest_idx:
  "length (nearest_idx ds k) =
     (if 0 \<le> k then min (nat k) (length ds) else nat (int (length ds) + k))"
proof (cases "0 \<le> k")
  case True
  then show ?thesis
    by (simp add: nearest_idx_def slice_upto_def length_argsort min_def) linarith
next
  case False
  then have "min k (int (length ds)) = k" by simp
  with False show ?thesis
    by (simp add: nearest_idx_def slice_upto_def length_argsort)
qed





lemma sort_rank_Fin: "sort_rank (Fin x) \<le> sort_rank (Fin y) \<longleftrightarrow> x \<le> y"
  by (auto simp: less_eq_prod_def)




lemma query_db_numpy:
  assumes "\<not> use_faiss st" "knowledge_db st = Rows rows" "length (metadata st) = length rows"
  shows "fst (query_db L t st v k) =
     Return (Some (map (\<lambda>i. metadata st ! i)
                     (nearest_idx (map (\<lambda>r. row_dist L r (sanitized st v)) rows) k),
                   map (\<lambda>i. map (\<lambda>r. row_dist L r (sanitized st v)) rows ! i)
                     (nearest_idx (map (\<lambda>r. row_dist L r (sanitized st v)) rows) k)))"
proof (cases "rows = []")
  case True
  with assms show ?thesis
    by (simp add: query_db_def query_numpy_def split_beta Let_def nearest_idx_def
        slice_upto_def argsort_def)
next
  case False
  let ?ds = "map (\<lambda>r. row_dist L r (sanitized st v)) rows"
  have "\<forall>i\<in>set (nearest_idx ?ds k). i < length (metadata st)"
    using set_nearest_idx[of ?ds k] assms(3) by auto
  from index_all_nat[OF this] False assms show ?thesis
    by (simp add: query_db_def query_numpy_def split_beta Let_def sanitized_def)
qed

lemma query_db_state: "snd (snd (query_db L t st v k)) = st"
  by (simp add: query_db_def query_faiss_def query_numpy_def split_beta Let_def
      split: backend.splits sum.splits flow.splits prod.splits)

lemma query_db_size0:
  "store_size st = Inr 0 \<Longrightarrow> fst (query_db L t st v k) = Return (Some ([], []))"
  by (auto simp: query_db_def query_faiss_def query_numpy_def store_size_def split_beta
      Let_def split: backend.splits if_splits)

text \<open>
  C9. \<open>query_db\<close> returns the object as it found it, every field of it, and never
  returns \<open>None\<close>: each path through the \<open>if\<close>/\<open>else\<close> returns or raises, so the two
  statements recording the query time do not run.
\<close>

theorem query_db_leaves_store:
  "snd (snd (query_db L t st v k)) = st \<and>
   query_times (snd (snd (query_db L t st v k))) = query_times st \<and>
   fst (query_db L t st v k) \<noteq> Return None"
  by (simp add: query_db_def query_faiss_def query_numpy_def split_beta Let_def
      split: backend.splits sum.splits flow.splits prod.splits)

text \<open>
  C8. On a store whose current size is zero, with either backend, \<open>query_db\<close> returns
  two empty sequences for every \<open>k\<close> and every query vector.
\<close>

theorem query_db_empty_store:
  "store_size st = Inr 0 \<Longrightarrow> fst (query_db L t st v k) = Return (Some ([], []))"
  by (auto simp: query_db_def query_faiss_def query_numpy_def store_size_def split_beta
      Let_def split: backend.splits if_splits)

theorem query_db_empty_store_witness:
  "store_size (faiss_store 4 SJPUConfig :: nat store) = Inr 0 \<and>
   fst (query_db faiss_ok 0 (faiss_store 4 SJPUConfig :: nat store) [Fin 1, NaN] (- 3))
     = Return (Some ([], [])) \<and>
   store_size (numpy_store 4 SJPUConfig :: nat store) = Inr 0 \<and>
   fst (query_db no_faiss 0 (numpy_store 4 SJPUConfig :: nat store) [] 7)
     = Return (Some ([], []))"
proof -
  have a: "store_size (faiss_store 4 SJPUConfig :: nat store) = Inr 0"
    by (simp add: store_size_def faiss_store_def ntotal_def)
  have b: "store_size (numpy_store 4 SJPUConfig :: nat store) = Inr 0"
    by (simp add: store_size_def numpy_store_def)
  show ?thesis
    using a b query_db_empty_store[OF a, of faiss_ok 0 "[Fin 1, NaN]" "- 3"]
      query_db_empty_store[OF b, of no_faiss 0 "[]" 7]
    by simp
qed

lemma store_ok_rows:
  "store_ok st \<Longrightarrow> knowledge_db st = Rows rows \<Longrightarrow>
   \<not> use_faiss st \<and> length (metadata st) = length rows \<and> (\<forall>r\<in>set rows. length r = dim st)"
  by (simp add: store_ok_def list_all_iff)

lemma store_ok_index:
  "store_ok st \<Longrightarrow> knowledge_db st = Index ix \<Longrightarrow>
   use_faiss st \<and> length (metadata st) = ntotal ix \<and> is_trained ix \<and> vectors st = ix_rows ix"
  by (simp add: store_ok_def)



lemma two_row_store_ok: "store_ok two_row_store"
  by (simp add: store_ok_def two_row_store_def)


lemma faiss_ok_reduce: "add_reduce faiss_ok = left_sum"
  by (simp add: faiss_ok_def no_faiss_def)




lemma query_db_numpy_count:
  assumes "store_ok st" "knowledge_db st = Rows rows"
  shows "result_count (fst (query_db L t st v k)) =
     Some (if 0 \<le> k then min (nat k) (length rows) else nat (int (length rows) + k),
           if 0 \<le> k then min (nat k) (length rows) else nat (int (length rows) + k))"
  using store_ok_rows[OF assms] assms(2)
  by (simp add: query_db_numpy[of st rows] length_nearest_idx)

lemma query_db_faiss_count:
  assumes "store_ok st" "knowledge_db st = Index ix" "0 < k"
  shows "result_count (fst (query_db L t st v k)) =
     Some (min (nat k) (ntotal ix), min (nat k) (ntotal ix))"
proof (cases "ntotal ix = 0")
  case True
  with store_ok_index[OF assms(1,2)] assms(2) show ?thesis
    by (simp add: query_db_def query_faiss_def split_beta Let_def)
next
  case False
  note ok = store_ok_index[OF assms(1,2)]
  define q where "q = astype_f32 (fst (validate_vector st v))"
  define k' where "k' = min k (int (ntotal ix))"
  define found where
    "found = take (nat k') (filter (\<lambda>i. i < ntotal ix) (probe_order L ix q))"
  define I where "I = map int found @ replicate (nat k' - length found) (- 1)"
  define D where
    "D = map (\<lambda>i. sq_dist L (ix_rows ix ! i) q) found @
         replicate (nat k' - length found) (Fin FLT_MAX)"
  have kpos: "0 < k'" using assms(3) False by (simp add: k'_def)
  have nk: "nat k' = min (nat k) (ntotal ix)" unfolding k'_def using assms(3) by linarith
  have lf: "length found \<le> nat k'" by (simp add: found_def)
  have fl: "\<forall>i\<in>set found. i < ntotal ix"
    by (auto simp: found_def dest!: in_set_takeD)
  have lenI: "length I = nat k'" using lf by (simp add: I_def)
  have lenD: "length D = nat k'" using lf by (simp add: D_def)
  have srch: "index_search L ix q k' = Inr (D, I)"
    using kpos by (simp add: index_search_def Let_def D_def I_def found_def)
  have "\<forall>i\<in>set I. - int (length (metadata st)) \<le> i \<and> i < int (length (metadata st))"
    using fl False ok by (auto simp: I_def)
  from index_all_valid[OF this] obtain ys where
    ys: "index_all (metadata st) I = Inr ys" "length ys = length I" by blast
  have "fst (query_db L t st v k) = Return (Some (ys, D))"
    using ok assms(2) False srch ys(1)
    by (simp add: query_db_def query_faiss_def split_beta Let_def q_def[symmetric]
        k'_def[symmetric])
  then show ?thesis using ys(2) lenI lenD nk by simp
qed

lemma query_db_faiss_nonpositive:
  assumes "use_faiss st" "knowledge_db st = Index ix" "0 < ntotal ix" "k \<le> 0"
  shows "fst (query_db L t st v k) = Raise AssertionError"
  using assms
  by (simp add: query_db_def query_faiss_def index_search_def split_beta Let_def)

lemma store_size_cases:
  "store_ok st \<Longrightarrow> store_size st = Inr n \<Longrightarrow>
   (\<not> use_faiss st \<and> (\<exists>rows. knowledge_db st = Rows rows \<and> length rows = n)) \<or>
   (use_faiss st \<and> (\<exists>ix. knowledge_db st = Index ix \<and> ntotal ix = n))"
  by (auto simp: store_ok_def store_size_def split: backend.splits if_splits)

text \<open>
  C3, as the code has it. On a store as construction and successful insertions leave
  it, holding \<open>n\<close> rows: for \<open>k \<ge> 1\<close> \<open>query_db\<close> returns exactly \<open>min k n\<close> metadata
  records and distances, so \<open>n\<close> of them when \<open>k\<close> exceeds \<open>n\<close>. For \<open>k \<le> 0\<close> the
  fallback backend raises nothing: it returns nothing for \<open>k = 0\<close>, and for a negative
  \<open>k\<close> the \<open>n + k\<close> nearest rows (nothing when \<open>n + k \<le> 0\<close>), by Python's slice. The
  indexed backend hands \<open>k \<le> 0\<close> to \<open>search\<close> as it is, which refuses it, unless the
  index is empty: an empty store returns two empty sequences for every \<open>k\<close>.
\<close>

theorem query_db_result_count:
  assumes "store_ok st" and "store_size st = Inr n"
  shows "(0 < k \<longrightarrow>
            result_count (fst (query_db L t st v k)) = Some (min (nat k) n, min (nat k) n)) \<and>
         (k \<le> 0 \<and> \<not> use_faiss st \<longrightarrow>
            result_count (fst (query_db L t st v k)) =
              Some (if k = 0 then 0 else nat (int n + k), if k = 0 then 0 else nat (int n + k))) \<and>
         (k \<le> 0 \<and> use_faiss st \<and> 0 < n \<longrightarrow>
            fst (query_db L t st v k) = Raise AssertionError) \<and>
         (n = 0 \<longrightarrow> fst (query_db L t st v k) = Return (Some ([], [])))"
  using store_size_cases[OF assms]
proof (elim disjE conjE exE)
  fix rows assume h: "\<not> use_faiss st" "knowledge_db st = Rows rows" "length rows = n"
  from query_db_numpy_count[OF assms(1) h(2), of L t v k] h(1,3)
    query_db_size0[of st L t v k] assms(2)
  show ?thesis by auto
next
  fix ix assume h: "use_faiss st" "knowledge_db st = Index ix" "ntotal ix = n"
  show ?thesis
    using query_db_faiss_count[OF assms(1) h(2), of k L t v]
      query_db_faiss_nonpositive[OF h(1,2), of k L t v] h(1,3)
      query_db_size0[of st L t v k] assms(2)
    by auto
qed

lemma faiss_store_ok: "store_ok (faiss_store d c)"
  by (simp add: store_ok_def faiss_store_def ntotal_def)

lemma faiss_store_size: "store_size (faiss_store d c) = Inr 0"
  by (simp add: store_size_def faiss_store_def ntotal_def)

lemma full_index_store_ok: "store_ok full_index_store"
  by (simp add: store_ok_def full_index_store_def ntotal_def)

lemma full_index_store_size: "store_size full_index_store = Inr 2"
  by (simp add: store_size_def full_index_store_def ntotal_def)

lemma two_row_store_size: "store_size two_row_store = Inr 2"
  by (simp add: store_size_def two_row_store_def)

theorem query_db_result_count_witness:
  "result_count (fst (query_db faiss_ok 0 full_index_store [Fin 1] 5)) = Some (2, 2) \<and>
   result_count (fst (query_db no_faiss 0 two_row_store [Fin 1] 5)) = Some (2, 2) \<and>
   result_count (fst (query_db no_faiss 0 two_row_store [Fin 1] (- 1))) = Some (1, 1) \<and>
   result_count (fst (query_db no_faiss 0 two_row_store [Fin 1] 0)) = Some (0, 0) \<and>
   fst (query_db faiss_ok 0 full_index_store [Fin 1] 0) = Raise AssertionError \<and>
   fst (query_db faiss_ok 0 (faiss_store 4 SJPUConfig :: nat store) [Fin 1] (- 3))
     = Return (Some ([], []))"
  using query_db_result_count[OF faiss_store_ok faiss_store_size, of "- 3" faiss_ok 0
      4 SJPUConfig "[Fin 1]", where ?'a = nat]
    query_db_result_count[OF full_index_store_ok full_index_store_size, of 5 faiss_ok 0 "[Fin 1]"]
    query_db_result_count[OF two_row_store_ok two_row_store_size, of 5 no_faiss 0 "[Fin 1]"]
    query_db_result_count[OF two_row_store_ok two_row_store_size, of "- 1" no_faiss 0 "[Fin 1]"]
    query_db_result_count[OF two_row_store_ok two_row_store_size, of 0 no_faiss 0 "[Fin 1]"]
    query_db_result_count[OF full_index_store_ok full_index_store_size, of 0 faiss_ok 0 "[Fin 1]"]
  by (simp add: full_index_store_def two_row_store_def)

text \<open>
  C3, as the claim states it, fails on the indexed backend: with two rows stored,
  \<open>k = -1\<close> raises.
\<close>

theorem query_db_index_negative_k:
  "fst (query_db faiss_ok 0 full_index_store [Fin 1] (- 1)) = Raise AssertionError"
  by (rule query_db_faiss_nonpositive[where
        ix = "\<lparr>ix_d = 1, ix_nlist = 32, nprobe = 8, is_trained = True,
               ix_rows = [[Fin 1], [Fin 2]]\<rparr>"])
     (simp_all add: full_index_store_def ntotal_def)

subsection \<open>The empty sequence\<close>

lemma tl_drop1: "tl xs = drop 1 xs"
  by (cases xs) simp_all






subsection \<open>The fallback backend under sequences of operations\<close>

text \<open>
  The capacity and consistency properties on the backend where the code keeps them.
  The indexed backend loses them at its first eviction, as shown above.
\<close>

lemma sanitized_dim: "dim st = dim st' \<Longrightarrow> sanitized st v = sanitized st' v"
  by (simp add: sanitized_def validate_vector_fst)

lemma last_n_snoc:
  "0 < n \<Longrightarrow>
   last_n n (xs @ [x]) =
     (if n \<le> length (last_n n xs) then drop 1 (last_n n xs) else last_n n xs) @ [x]"
  by (auto simp: last_n_def Suc_diff_le)

lemma length_last_n: "length (last_n n xs) = min n (length xs)"
  by (auto simp: last_n_def)

lemma numpy_step:
  assumes "store_ok st" "\<not> use_faiss st" "0 < dim st" "0 < MAX_DB_SIZE (config st)"
  shows "store_ok (step L st x) \<and> \<not> use_faiss (step L st x) \<and>
         dim (step L st x) = dim st \<and> config (step L st x) = config st"
proof (cases x)
  case (Query t v k)
  with assms show ?thesis by (simp add: query_db_state)
next
  case (Add t v m)
  obtain rows where rows: "knowledge_db st = Rows rows"
    using assms(1,2) by (cases "knowledge_db st") (auto simp: store_ok_def)
  note ok = store_ok_rows[OF assms(1) rows]
  have ne: "MAX_DB_SIZE (config st) \<le> length rows \<longrightarrow> metadata st \<noteq> []"
    using ok assms(4) by auto
  show ?thesis
    unfolding Add step.simps add_to_db_numpy[OF assms(2) rows assms(3) ne]
    using ok assms by (auto simp: store_ok_def list_all_iff length_sanitized dest: in_set_dropD)
qed

lemma numpy_run:
  assumes "store_ok st" "\<not> use_faiss st" "0 < dim st" "0 < MAX_DB_SIZE (config st)"
  shows "store_ok (run L st xs) \<and> \<not> use_faiss (run L st xs) \<and>
         dim (run L st xs) = dim st \<and> config (run L st xs) = config st"
proof (induction xs rule: rev_induct)
  case Nil
  with assms show ?case by (simp add: run_def)
next
  case (snoc x xs)
  have "run L st (xs @ [x]) = step L (run L st xs) x" by (simp add: run_def)
  with snoc assms numpy_step[of "run L st xs" L x] show ?case by simp
qed

lemma numpy_store_ok: "store_ok (numpy_store d c)"
  by (simp add: store_ok_def numpy_store_def)

lemma numpy_bounded_step:
  assumes "store_ok st" "\<not> use_faiss st" "0 < dim st" "0 < MAX_DB_SIZE (config st)"
    "length (metadata st) \<le> MAX_DB_SIZE (config st)"
  shows "length (metadata (step L st x)) \<le> MAX_DB_SIZE (config st)"
proof (cases x)
  case (Query t v k)
  with assms show ?thesis by (simp add: query_db_state)
next
  case (Add t v m)
  obtain rows where rows: "knowledge_db st = Rows rows"
    using assms(1,2) by (cases "knowledge_db st") (auto simp: store_ok_def)
  note ok = store_ok_rows[OF assms(1) rows]
  have ne: "MAX_DB_SIZE (config st) \<le> length rows \<longrightarrow> metadata st \<noteq> []"
    using ok assms(4) by auto
  show ?thesis
    unfolding Add step.simps add_to_db_numpy[OF assms(2) rows assms(3) ne]
    using ok assms by auto
qed

lemma numpy_bounded_run:
  assumes "store_ok st" "\<not> use_faiss st" "0 < dim st" "0 < MAX_DB_SIZE (config st)"
    "length (metadata st) \<le> MAX_DB_SIZE (config st)"
  shows "length (metadata (run L st xs)) \<le> MAX_DB_SIZE (config st)"
proof (induction xs rule: rev_induct)
  case Nil
  with assms show ?case by (simp add: run_def)
next
  case (snoc x xs)
  have r: "run L st (xs @ [x]) = step L (run L st xs) x" by (simp add: run_def)
  note inv = numpy_run[OF assms(1-4), of L xs]
  from numpy_bounded_step[of "run L st xs" L x] inv snoc assms(3,4) show ?case
    unfolding r by simp
qed

text \<open>
  On the fallback backend, with a positive dimension and capacity, the metadata count
  and the current size agree and stay within the capacity after every sequence of
  insertions and queries.
\<close>

lemma numpy_stats_consistent:
  assumes "0 < d" "0 < MAX_DB_SIZE c"
  shows "\<exists>n. n \<le> MAX_DB_SIZE c \<and>
     get_system_stats (run L (numpy_store d c) xs) =
       Inr \<lparr>stat_dim = d, db_size = n, max_db_size = MAX_DB_SIZE c, using_faiss = False,
            metadata_count = n\<rparr>"
proof -
  let ?st = "numpy_store d c :: 'a store"
  have a: "store_ok ?st" "\<not> use_faiss ?st" "0 < dim ?st" "0 < MAX_DB_SIZE (config ?st)"
    "length (metadata ?st) \<le> MAX_DB_SIZE (config ?st)"
    using assms by (simp_all add: numpy_store_ok) (simp_all add: numpy_store_def)
  note inv = numpy_run[OF a(1-4), of L xs]
  note bnd = numpy_bounded_run[OF a, of L xs]
  obtain rows where rows: "knowledge_db (run L ?st xs) = Rows rows"
    using inv by (cases "knowledge_db (run L ?st xs)") (auto simp: store_ok_def)
  from store_ok_rows[OF _ rows] inv bnd rows show ?thesis
    by (simp add: get_system_stats_def store_size_def numpy_store_def)
qed

text \<open>
  On the fallback backend the rows and the metadata are the last \<open>MAX_DB_SIZE\<close> inserted,
  in insertion order, after every sequence of insertions.
\<close>

lemma numpy_keeps_last_from:
  assumes "0 < d" "0 < MAX_DB_SIZE c"
  shows "knowledge_db (run L (numpy_store d c) (inserts xs)) =
           Rows (last_n (MAX_DB_SIZE c)
                  (map (\<lambda>(t, vec, meta). sanitized (numpy_store d c :: 'a store) vec)
                     (xs :: (real \<times> float list \<times> 'a) list))) \<and>
         metadata (run L (numpy_store d c) (inserts xs)) =
           last_n (MAX_DB_SIZE c) (map (\<lambda>(t, vec, meta). meta) xs)"
proof (induction xs rule: rev_induct)
  case Nil
  show ?case by (simp add: run_def inserts_def numpy_store_def last_n_def)
next
  case (snoc x xs)
  obtain t vec meta where x: "x = (t, vec, meta)" by (cases x) auto
  let ?init = "numpy_store d c :: 'a store"
  let ?st = "run L ?init (inserts xs)"
  have a: "store_ok ?init" "\<not> use_faiss ?init" "0 < dim ?init" "0 < MAX_DB_SIZE (config ?init)"
    using assms by (simp_all add: numpy_store_ok) (simp_all add: numpy_store_def)
  note inv = numpy_run[OF a, of L "inserts xs"]
  have dc: "dim ?st = d" "config ?st = c" using inv by (simp_all add: numpy_store_def)
  let ?R = "map (\<lambda>(t, vec, meta). sanitized ?init vec) xs"
  let ?M = "map (\<lambda>(t, vec, meta). meta) xs"
  have rows: "knowledge_db ?st = Rows (last_n (MAX_DB_SIZE c) ?R)" using snoc by simp
  have meta: "metadata ?st = last_n (MAX_DB_SIZE c) ?M" using snoc by simp
  have ne: "MAX_DB_SIZE (config ?st) \<le> length (last_n (MAX_DB_SIZE c) ?R) \<longrightarrow> metadata ?st \<noteq> []"
  proof
    assume "MAX_DB_SIZE (config ?st) \<le> length (last_n (MAX_DB_SIZE c) ?R)"
    then have "0 < length (last_n (MAX_DB_SIZE c) ?M)"
      using assms(2) by (simp add: dc length_last_n)
    then show "metadata ?st \<noteq> []" unfolding meta by auto
  qed
  have nf: "\<not> use_faiss ?st" using inv by simp
  have dpos: "0 < dim ?st" using dc assms by simp
  have r: "run L ?init (inserts (xs @ [x])) = step L ?st (Add t vec meta)"
    by (simp add: run_def inserts_def x)
  have san: "sanitized ?st vec = sanitized ?init vec"
  proof (rule sanitized_dim)
    have "dim ?init = d" by (simp add: numpy_store_def)
    then show "dim ?st = dim ?init" using dc(1) by simp
  qed
  show ?case
    unfolding r step.simps add_to_db_numpy[OF nf rows dpos ne]
    using assms(2)
    by (simp add: x dc meta san last_n_snoc length_last_n tl_drop1)
qed

end
